theory Spec2Isabelle
  imports Main "HOL-Library.Sublist"
begin

section \<open>Python strings\<close>

text \<open>
  A Python \<open>str\<close> is a sequence of Unicode code points; \<open>len\<close> counts code
  points. A string is modelled as the list of its code points, so that the
  non-Latin characters of the source's literals (U+2194, the emoji of the
  summary) are single elements, as they are in Python. \<open>str\<close> embeds an
  Isabelle string literal.
\<close>

type_synonym pystr = "nat list"

definition str :: "string \<Rightarrow> pystr" where
  "str s = map of_char s"

text \<open>
  Slices \<open>text[:n]\<close> and \<open>text[k:]\<close> for arbitrary integers: a negative bound
  counts from the end and is clamped at the start of the string, a bound past
  the end is clamped at the end. No slice raises.
\<close>

definition slice_to :: "'a list \<Rightarrow> int \<Rightarrow> 'a list" where
  "slice_to text n =
     (if n < 0 then take (nat (int (length text) + n)) text else take (nat n) text)"

definition slice_from :: "'a list \<Rightarrow> int \<Rightarrow> 'a list" where
  "slice_from text k =
     (if k < 0 then drop (nat (int (length text) + k)) text else drop (nat k) text)"

text \<open>\<open>needle in hay\<close> on strings: \<open>needle\<close> occurs as a contiguous run.\<close>

fun contains :: "'a list \<Rightarrow> 'a list \<Rightarrow> bool" where
  "contains [] needle = (needle = [])"
| "contains (c # cs) needle = (prefix needle (c # cs) \<or> contains cs needle)"

text \<open>
  \<open>text.split(sep)\<close> for a non-empty separator: cut at the non-overlapping
  occurrences of \<open>sep\<close>, scanning from the left; the result is never empty
  (\<open>''.split('. ')\<close> is \<open>['']\<close>).
\<close>

function split :: "'a list \<Rightarrow> 'a list \<Rightarrow> 'a list list" where
  "split sep [] = [[]]"
| "split sep (c # cs) =
     (if sep \<noteq> [] \<and> prefix sep (c # cs)
      then [] # split sep (drop (length sep) (c # cs))
      else (case split sep cs of
              [] \<Rightarrow> [[c]]
            | w # ws \<Rightarrow> (c # w) # ws))"
  by pat_completeness auto
termination
  by (relation "measure (\<lambda>(sep, text). length text)") (auto simp: neq_Nil_conv)

text \<open>\<open>sep.join(parts)\<close>.\<close>

fun join :: "'a list \<Rightarrow> 'a list list \<Rightarrow> 'a list" where
  "join sep [] = []"
| "join sep [x] = x"
| "join sep (x # y # ys) = x @ sep @ join sep (y # ys)"

text \<open>
  \<open>sentence.lower()\<close> is used by the source only under \<open>keyword in ...\<close>, with
  keywords made of the ASCII letters a-z (without k) and digits. Lowering the
  ASCII capitals is all that this test can see: the only other code points
  whose Python lowercase holds an ASCII character are U+212A (to \<open>k\<close>, which
  no keyword holds) and U+0130 (to \<open>i\<close> followed by U+0307, and no keyword
  ends in \<open>i\<close>), so a match can never run over them, as it cannot run over
  the unchanged code point here.
\<close>

definition lower_cp :: "nat \<Rightarrow> nat" where
  "lower_cp c = (if 65 \<le> c \<and> c \<le> 90 then c + 32 else c)"

definition lower :: "pystr \<Rightarrow> pystr" where
  "lower s = map lower_cp s"

section \<open>The chunker\<close>

definition art_keywords :: "pystr list" where
  "art_keywords = map str
     [''mostra'', ''exhibition'', ''galleria'', ''museo'', ''biennale'', ''triennale'',
      ''artista'', ''artist'', ''curatore'', ''curator'', ''critico'',
      ''palazzo'', ''fondazione'', ''centro'', ''spazio'',
      ''gennaio'', ''febbraio'', ''marzo'', ''aprile'', ''maggio'', ''giugno'',
      ''luglio'', ''agosto'', ''settembre'', ''ottobre'', ''novembre'', ''dicembre'',
      ''2020'', ''2021'', ''2022'', ''2023'', ''2024'', ''2025'']"

text \<open>\<open>any(keyword in sentence.lower() for keyword in art_keywords)\<close>\<close>

definition important :: "pystr \<Rightarrow> bool" where
  "important sentence = list_ex (\<lambda>keyword. contains (lower sentence) keyword) art_keywords"

text \<open>
  \<open>int(chunk_size * 0.6)\<close> and \<open>int(chunk_size * 0.4)\<close>: the product is a double
  and \<open>int\<close> truncates towards zero. The doubles nearest to 0.6 and 0.4 are
  within a relative error of \<open>2^-54\<close>, while \<open>3 * chunk_size / 5\<close> and
  \<open>2 * chunk_size / 5\<close> are integers or at least 1/5 away from one, so for
  \<open>|chunk_size| < 2^49\<close> (beyond any length a string can have, and the branch
  is only reached when \<open>chunk_size < len(text)\<close>) the result is the exact
  quotient truncated towards zero.
\<close>

definition trunc_frac :: "int \<Rightarrow> int \<Rightarrow> int \<Rightarrow> int" where
  "trunc_frac x num den =
     (if 0 \<le> x then (x * num) div den else - ((- x * num) div den))"

definition chunk_text :: "pystr \<Rightarrow> int \<Rightarrow> bool \<Rightarrow> pystr" where
  "chunk_text text chunk_size smart_chunking =
     (if int (length text) \<le> chunk_size then text
      else if \<not> smart_chunking then
        (let first_part = trunc_frac chunk_size 6 10;
             last_part = trunc_frac chunk_size 4 10
         in slice_to text first_part @ str ''...'' @ slice_from text (- last_part))
      else
        (let sentences = split (str ''. '') text;
             important_sentences = filter important sentences;
             regular_sentences = filter (\<lambda>sentence. \<not> important sentence) sentences;
             important_text = join (str ''. '') important_sentences
         in if chunk_size \<le> int (length important_text)
            then slice_to important_text (chunk_size - 3) @ str ''...''
            else
              (let remaining_space = chunk_size - int (length important_text) - 10;
                   regular_text = join (str ''. '') regular_sentences
               in if int (length regular_text) \<le> remaining_space
                  then important_text @ str ''. '' @ regular_text
                  else important_text @ str ''. '' @ slice_to regular_text remaining_space
                         @ str ''...'')))"


section \<open>Values, dictionaries, exceptions\<close>

text \<open>\<open>str(n)\<close> for an integer: its decimal digits, with a minus sign when negative.\<close>

fun digits :: "nat \<Rightarrow> pystr" where
  "digits n = (if n < 10 then [48 + n] else digits (n div 10) @ [48 + n mod 10])"

definition str_int :: "int \<Rightarrow> pystr" where
  "str_int i = (if i < 0 then 45 # digits (nat (- i)) else digits (nat i))"

text \<open>
  The adapters return dictionaries with string keys whose values are strings,
  integers or lists of strings. A dictionary is an association list in
  insertion order; \<open>d.get(k)\<close> is \<open>map_of d k\<close>.
\<close>

datatype pyval = VStr pystr | VInt int | VList "pystr list"

type_synonym pydict = "(string \<times> pyval) list"

definition get_int :: "pydict \<Rightarrow> string \<Rightarrow> int \<Rightarrow> int" where
  "get_int d k dflt = (case map_of d k of Some (VInt i) \<Rightarrow> i | _ \<Rightarrow> dflt)"

definition get_str :: "pydict \<Rightarrow> string \<Rightarrow> pystr \<Rightarrow> pystr" where
  "get_str d k dflt = (case map_of d k of Some (VStr s) \<Rightarrow> s | _ \<Rightarrow> dflt)"

text \<open>\<open>d.get(k)\<close> for a key that holds a list: \<open>None\<close> is as false as \<open>[]\<close>.\<close>

definition get_list :: "pydict \<Rightarrow> string \<Rightarrow> pystr list" where
  "get_list d k = (case map_of d k of Some (VList l) \<Rightarrow> l | _ \<Rightarrow> [])"

text \<open>
  The exceptions that can arise: the interpreter's own \<open>IndexError\<close> and
  \<open>ZeroDivisionError\<close>, and whatever a collaborator raises, carried with its
  message. \<open>str_exn\<close> is \<open>str(e)\<close> (CPython's messages for the first two).
\<close>

datatype exn = IndexError | ZeroDivisionError | CollaboratorError pystr

fun str_exn :: "exn \<Rightarrow> pystr" where
  "str_exn IndexError = str ''list index out of range''"
| "str_exn ZeroDivisionError = str ''integer division or modulo by zero''"
| "str_exn (CollaboratorError msg) = msg"

section \<open>Collaborators and the tool's state\<close>

record graph_record =
  artist1 :: pystr
  artist2 :: pystr
  mentions1 :: int
  mentions2 :: int

text \<open>
  What the outside world answers. \<open>generate_content\<close> is
  \<open>self.model.generate_content(prompt).text\<close>; \<open>graph_driver\<close>, \<open>pg_connect\<close>,
  \<open>graph_session\<close> and \<open>pg_cursor\<close> say whether \<open>GraphDatabase.driver(...)\<close>,
  \<open>psycopg2.connect(...)\<close>, \<open>driver.session()\<close> and \<open>conn.cursor()\<close> raise;
  \<open>session_run\<close> gives the records the result yields and the exception that
  ends the iteration, if any (\<open>session.run\<close> raising at once is no record and
  an exception); \<open>cur_execute\<close> is \<open>cur.execute(q)\<close> followed by
  \<open>cur.fetchall()\<close>, rows being (year, articles, events). \<open>now_ordinal\<close> is the
  day of \<open>datetime.now()\<close> and \<open>strftime_ymd\<close> the library's rendering of a day
  as \<open>%Y-%m-%d\<close>.
\<close>

record collab =
  generate_content :: "pystr \<Rightarrow> exn + pystr"
  graph_driver :: "exn option"
  pg_connect :: "exn option"
  graph_session :: "exn option"
  session_run :: "pystr \<Rightarrow> graph_record list \<times> exn option"
  pg_cursor :: "exn option"
  cur_execute :: "pystr \<Rightarrow> exn + (int \<times> int \<times> int) list"
  now_ordinal :: int
  strftime_ymd :: "int \<Rightarrow> pystr"

datatype call =
    GenerateContent pystr
  | Neo4jDriver
  | PgConnect
  | Neo4jSession
  | SessionRun pystr
  | PgCursor
  | CurExecute pystr

text \<open>
  The tool object: whether \<open>self.neo4j_driver\<close> and \<open>self.pg_conn\<close> are set, and
  the collaborator calls made so far, in order.
\<close>

record tool =
  neo4j_driver :: bool
  pg_conn :: bool
  calls :: "call list"

definition called :: "call \<Rightarrow> tool \<Rightarrow> tool" where
  "called c st = st\<lparr>calls := calls st @ [c]\<rparr>"

definition setup_connections :: "collab \<Rightarrow> tool \<Rightarrow> (exn + unit) \<times> tool" where
  "setup_connections env st =
     (case (if \<not> neo4j_driver st
            then (case graph_driver env of
                    Some e \<Rightarrow> (Inl e, called Neo4jDriver st)
                  | None \<Rightarrow> (Inr (), (called Neo4jDriver st)\<lparr>neo4j_driver := True\<rparr>))
            else (Inr (), st)) of
        (Inl e, st1) \<Rightarrow> (Inl e, st1)
      | (Inr u, st1) \<Rightarrow>
          (if \<not> pg_conn st1
           then (case pg_connect env of
                   Some e \<Rightarrow> (Inl e, called PgConnect st1)
                 | None \<Rightarrow> (Inr (), (called PgConnect st1)\<lparr>pg_conn := True\<rparr>))
           else (Inr (), st1)))"

section \<open>The adapters\<close>

definition error_result :: "exn \<Rightarrow> string \<Rightarrow> pydict" where
  "error_result e usage_key = [(''error'', VStr (str_exn e)), (usage_key, VInt 0)]"

subsection \<open>Semantic\<close>

definition prompt :: "pystr \<Rightarrow> pystr" where
  "prompt query =
     [10] @ str ''        Analizza brevemente questa domanda di arte contemporanea:'' @ [10]
     @ str ''        '' @ [34] @ query @ [34] @ [10]
     @ str ''        '' @ [10]
     @ str ''        Rispondi in max 200 caratteri con:'' @ [10]
     @ str ''        ENTIT'' @ [192] @ str '': [artisti/luoghi principali]'' @ [10]
     @ str ''        TIPO: [ricerca|network|timeline]'' @ [10]
     @ str ''        FOCUS: [termine principale]'' @ [10]
     @ str ''        ''"

text \<open>The code points for which \<open>str.isspace\<close> holds; \<open>query.split()\<close> cuts at runs of them.\<close>

definition is_space :: "nat \<Rightarrow> bool" where
  "is_space c =
     ((9 \<le> c \<and> c \<le> 13) \<or> (28 \<le> c \<and> c \<le> 32) \<or> c = 133 \<or> c = 160 \<or> c = 5760
      \<or> (8192 \<le> c \<and> c \<le> 8202) \<or> c = 8232 \<or> c = 8233 \<or> c = 8239 \<or> c = 8287
      \<or> c = 12288)"

fun split_ws_from :: "pystr \<Rightarrow> pystr \<Rightarrow> pystr list" where
  "split_ws_from w [] = (if w = [] then [] else [w])"
| "split_ws_from w (c # cs) =
     (if is_space c
      then (if w = [] then split_ws_from [] cs else w # split_ws_from [] cs)
      else split_ws_from (w @ [c]) cs)"

definition split_ws :: "pystr \<Rightarrow> pystr list" where
  "split_ws s = split_ws_from [] s"

text \<open>\<open>query.split()[0] if query else ""\<close>\<close>

definition focus_of :: "pystr \<Rightarrow> exn + pystr" where
  "focus_of query =
     (if query \<noteq> []
      then (case split_ws query of [] \<Rightarrow> Inl IndexError | w # ws \<Rightarrow> Inr w)
      else Inr [])"

definition semantic_analysis ::
  "collab \<Rightarrow> tool \<Rightarrow> pystr \<Rightarrow> int \<Rightarrow> (exn + pydict) \<times> tool" where
  "semantic_analysis env st query chunk_size =
     (let st1 = called (GenerateContent (prompt query)) st
      in case generate_content env (prompt query) of
           Inl e \<Rightarrow> (Inr (error_result e ''tokens_used''), st1)
         | Inr response_text \<Rightarrow>
             (let analysis_text = chunk_text response_text chunk_size True
              in case focus_of query of
                   Inl e \<Rightarrow> (Inr (error_result e ''tokens_used''), st1)
                 | Inr focus \<Rightarrow>
                     (Inr [(''entities'', VList []),
                           (''query_type'', VStr (str ''ricerca'')),
                           (''focus'', VStr focus),
                           (''analysis'', VStr analysis_text),
                           (''tokens_used'',
                              VInt (int (length (prompt query)) + int (length analysis_text)))],
                      st1)))"

subsection \<open>Graph\<close>

definition cypher_query :: "int \<Rightarrow> pystr" where
  "cypher_query max_results =
     [10] @ str ''        MATCH (a:Artist)-[:COLLABORATES_WITH]-(b:Artist)'' @ [10]
     @ str ''        WHERE a.mentions > 100 AND b.mentions > 100'' @ [10]
     @ str ''        RETURN a.name as artist1, b.name as artist2, '' @ [10]
     @ str ''               a.mentions as mentions1, b.mentions as mentions2'' @ [10]
     @ str ''        ORDER BY (a.mentions + b.mentions) DESC'' @ [10]
     @ str ''        LIMIT '' @ str_int max_results @ [10]
     @ str ''        ''"

definition artist_info :: "graph_record \<Rightarrow> pystr" where
  "artist_info record =
     artist1 record @ str '' '' @ [8596] @ str '' '' @ artist2 record @ str '' (''
     @ str_int (mentions1 record) @ str ''+'' @ str_int (mentions2 record)
     @ str '' menzioni)''"

text \<open>
  The body of the \<open>try\<close>: the loop over the records, each chunked with the
  budget \<open>chunk_size // max_results\<close> (which raises when \<open>max_results\<close> is 0),
  then the exception that ends the iteration, if there is one.
\<close>

fun graph_rows :: "graph_record list \<Rightarrow> exn option \<Rightarrow> int \<Rightarrow> int \<Rightarrow> exn + pystr list" where
  "graph_rows [] err max_results chunk_size =
     (case err of Some e \<Rightarrow> Inl e | None \<Rightarrow> Inr [])"
| "graph_rows (record # rest) err max_results chunk_size =
     (if max_results = 0 then Inl ZeroDivisionError
      else (case graph_rows rest err max_results chunk_size of
              Inl e \<Rightarrow> Inl e
            | Inr results \<Rightarrow>
                Inr (chunk_text (artist_info record) (chunk_size div max_results) True
                       # results)))"

definition graph_analysis ::
  "collab \<Rightarrow> tool \<Rightarrow> pystr \<Rightarrow> int \<Rightarrow> int \<Rightarrow> (exn + pydict) \<times> tool" where
  "graph_analysis env st query max_results chunk_size =
     (case setup_connections env st of
        (Inl e, st1) \<Rightarrow> (Inl e, st1)
      | (Inr u, st1) \<Rightarrow>
          (case graph_session env of
             Some e \<Rightarrow> (Inl e, called Neo4jSession st1)
           | None \<Rightarrow>
               (let st2 = called (SessionRun (cypher_query max_results))
                            (called Neo4jSession st1);
                    (records, err) = session_run env (cypher_query max_results)
                in case graph_rows records err max_results chunk_size of
                     Inl e \<Rightarrow> (Inr (error_result e ''char_used''), st2)
                   | Inr results \<Rightarrow>
                       (Inr [(''collaborations'', VList results),
                             (''total_found'', VInt (int (length results))),
                             (''query_executed'',
                                VStr (slice_to (cypher_query max_results) 100 @ str ''...'')),
                             (''char_used'', VInt (int (sum_list (map length results))))],
                        st2))))"

subsection \<open>Temporal\<close>

definition date_filter :: "collab \<Rightarrow> pystr \<Rightarrow> pystr" where
  "date_filter env date_range =
     (if date_range = str ''last_year''
      then str ''published_date >= '' @ [39] @ strftime_ymd env (now_ordinal env - 365) @ [39]
      else if date_range = str ''2020-2024''
      then str ''published_date >= '' @ [39] @ str ''2020-01-01'' @ [39]
           @ str '' AND published_date < '' @ [39] @ str ''2025-01-01'' @ [39]
      else str ''published_date IS NOT NULL'')"

definition temporal_query :: "pystr \<Rightarrow> int \<Rightarrow> pystr" where
  "temporal_query filter_text max_results =
     [10] @ str ''        SELECT '' @ [10]
     @ str ''            EXTRACT(YEAR FROM published_date) as anno,'' @ [10]
     @ str ''            COUNT(*) as articoli,'' @ [10]
     @ str ''            COUNT(CASE WHEN is_event = true THEN 1 END) as eventi'' @ [10]
     @ str ''        FROM mcp_articles '' @ [10]
     @ str ''        WHERE '' @ filter_text @ [10]
     @ str ''        GROUP BY EXTRACT(YEAR FROM published_date)'' @ [10]
     @ str ''        ORDER BY anno DESC'' @ [10]
     @ str ''        LIMIT '' @ str_int max_results @ [10]
     @ str ''        ''"

definition year_info :: "int \<times> int \<times> int \<Rightarrow> pystr" where
  "year_info row =
     (case row of (year, articles, events) \<Rightarrow>
        str_int year @ str '': '' @ str_int articles @ str '' articoli, ''
        @ str_int events @ str '' eventi'')"

definition temporal_analysis ::
  "collab \<Rightarrow> tool \<Rightarrow> pystr \<Rightarrow> pystr \<Rightarrow> int \<Rightarrow> int \<Rightarrow> (exn + pydict) \<times> tool" where
  "temporal_analysis env st query date_range max_results chunk_size =
     (case setup_connections env st of
        (Inl e, st1) \<Rightarrow> (Inl e, st1)
      | (Inr u, st1) \<Rightarrow>
          (let temporal_q = temporal_query (date_filter env date_range) max_results
           in case pg_cursor env of
                Some e \<Rightarrow> (Inl e, called PgCursor st1)
              | None \<Rightarrow>
                  (let st2 = called (CurExecute temporal_q) (called PgCursor st1)
                   in case cur_execute env temporal_q of
                        Inl e \<Rightarrow> (Inr (error_result e ''char_used''), st2)
                      | Inr rows \<Rightarrow>
                          (let results = map year_info rows
                           in (Inr [(''timeline'', VList results),
                                    (''date_range'', VStr date_range),
                                    (''total_years'', VInt (int (length results))),
                                    (''char_used'',
                                       VInt (int (sum_list (map length results))))],
                               st2)))))"

section \<open>The orchestrator\<close>

record params =
  query :: pystr
  use_semantic :: bool
  use_graph :: bool
  use_dates :: bool
  chunk_size :: int
  max_results :: int
  date_range :: pystr
  smart_chunking :: bool
  output_format :: pystr

record chunking =
  applied_chunk_size :: int
  applied_max_results :: int
  total_chars :: int

text \<open>
  The dictionary \<open>execute\<close> returns, a field per key (\<open>query\<close> and
  \<open>semantic_analysis\<close> are prefixed, the names being taken).
\<close>

record response =
  res_query :: pystr
  systems_used :: "string list"
  res_semantic_analysis :: "pydict option"
  graph_data :: "pydict option"
  temporal_data :: "pydict option"
  combined_summary :: pystr
  context_usage :: "(string \<times> int) list"
  chunking_applied :: chunking

text \<open>
  One of the three steps: the adapter runs when its flag is set, and its
  result is then not \<open>None\<close>; an exception it lets through leaves \<open>execute\<close>.
\<close>

definition step ::
  "bool \<Rightarrow> (tool \<Rightarrow> (exn + pydict) \<times> tool) \<Rightarrow> tool \<Rightarrow> (exn + pydict option) \<times> tool" where
  "step flag adapter st =
     (if flag
      then (case adapter st of
              (Inl e, st1) \<Rightarrow> (Inl e, st1)
            | (Inr d, st1) \<Rightarrow> (Inr (Some d), st1))
      else (Inr None, st))"

text \<open>
  An entry of \<open>systems_used\<close> and of \<open>context_usage\<close> is written in the same
  \<open>if\<close> block that sets the result, so it is there exactly when the result is
  not \<open>None\<close>.
\<close>

definition used :: "string \<Rightarrow> pydict option \<Rightarrow> string list" where
  "used name result = (case result of None \<Rightarrow> [] | Some d \<Rightarrow> [name])"

definition usage :: "string \<Rightarrow> string \<Rightarrow> pydict option \<Rightarrow> (string \<times> int) list" where
  "usage name usage_key result =
     (case result of None \<Rightarrow> [] | Some d \<Rightarrow> [(name, get_int d usage_key 0)])"

text \<open>
  The three \<open>if\<close> statements that fill \<open>summary_parts\<close>. A result is true when it
  is neither \<open>None\<close> nor an empty dictionary; \<open>d.get(k)\<close> is true when it is a
  list that is not empty.
\<close>

definition semantic_part :: "pydict option \<Rightarrow> pystr list" where
  "semantic_part semantic_result =
     (case semantic_result of
        None \<Rightarrow> []
      | Some d \<Rightarrow>
          (if d \<noteq> []
           then [[129504] @ str '' Semantico: ''
                   @ slice_to (get_str d ''analysis'' (str ''N/A'')) 100]
           else []))"

definition graph_part :: "pydict option \<Rightarrow> pystr list" where
  "graph_part graph_result =
     (case graph_result of
        None \<Rightarrow> []
      | Some d \<Rightarrow>
          (if d \<noteq> [] \<and> get_list d ''collaborations'' \<noteq> []
           then [[128376, 65039] @ str '' Network: ''
                   @ str_int (int (length (get_list d ''collaborations'')))
                   @ str '' collaborazioni trovate'']
           else []))"

definition temporal_part :: "pydict option \<Rightarrow> pystr list" where
  "temporal_part temporal_result =
     (case temporal_result of
        None \<Rightarrow> []
      | Some d \<Rightarrow>
          (if d \<noteq> [] \<and> get_list d ''timeline'' \<noteq> []
           then [[128202] @ str '' Temporale: ''
                   @ str_int (int (length (get_list d ''timeline'')))
                   @ str '' anni analizzati'']
           else []))"

definition summary_parts ::
  "pydict option \<Rightarrow> pydict option \<Rightarrow> pydict option \<Rightarrow> pystr list" where
  "summary_parts semantic_result graph_result temporal_result =
     semantic_part semantic_result @ graph_part graph_result @ temporal_part temporal_result"

definition build_response ::
  "params \<Rightarrow> pydict option \<Rightarrow> pydict option \<Rightarrow> pydict option \<Rightarrow> response" where
  "build_response p semantic_result graph_result temporal_result =
     (let usage_all = usage ''semantic'' ''tokens_used'' semantic_result
                      @ usage ''graph'' ''char_used'' graph_result
                      @ usage ''temporal'' ''char_used'' temporal_result;
          parts = summary_parts semantic_result graph_result temporal_result
      in \<lparr> res_query = query p,
           systems_used = used ''semantic'' semantic_result @ used ''graph'' graph_result
                          @ used ''temporal'' temporal_result,
           res_semantic_analysis = semantic_result,
           graph_data = graph_result,
           temporal_data = temporal_result,
           combined_summary =
             (if parts \<noteq> [] then join (str '' | '') parts
              else str ''Nessun sistema attivato''),
           context_usage = usage_all,
           chunking_applied =
             \<lparr> applied_chunk_size = chunk_size p,
               applied_max_results = max_results p,
               total_chars = sum_list (map snd usage_all) \<rparr> \<rparr>)"

definition execute :: "collab \<Rightarrow> tool \<Rightarrow> params \<Rightarrow> (exn + response) \<times> tool" where
  "execute env st p =
     (case step (use_semantic p)
             (\<lambda>s. semantic_analysis env s (query p) (chunk_size p)) st of
        (Inl e, st1) \<Rightarrow> (Inl e, st1)
      | (Inr semantic_result, st1) \<Rightarrow>
          (case step (use_graph p)
                  (\<lambda>s. graph_analysis env s (query p) (max_results p) (chunk_size p)) st1 of
             (Inl e, st2) \<Rightarrow> (Inl e, st2)
           | (Inr graph_result, st2) \<Rightarrow>
               (case step (use_dates p)
                       (\<lambda>s. temporal_analysis env s (query p) (date_range p)
                              (max_results p) (chunk_size p)) st2 of
                  (Inl e, st3) \<Rightarrow> (Inl e, st3)
                | (Inr temporal_result, st3) \<Rightarrow>
                    (Inr (build_response p semantic_result graph_result temporal_result),
                     st3))))"

section \<open>Concrete inputs\<close>

text \<open>
  Collaborators that all answer: the model says \<open>ok\<close>, the graph yields one
  record, the relational store one row, and the clock is fixed.
\<close>

definition env_ok :: collab where
  "env_ok =
     \<lparr> generate_content = (\<lambda>p. Inr (str ''ok'')),
       graph_driver = None,
       pg_connect = None,
       graph_session = None,
       session_run =
         (\<lambda>q. ([\<lparr> artist1 = str ''Ann'', artist2 = str ''Bob'',
                   mentions1 = 150, mentions2 = 120 \<rparr>], None)),
       pg_cursor = None,
       cur_execute = (\<lambda>q. Inr [(2023, 10, 2)]),
       now_ordinal = 739924,
       strftime_ymd = (\<lambda>d. str ''2025-11-04'') \<rparr>"

text \<open>The relational store cannot be reached: \<open>psycopg2.connect\<close> raises.\<close>

definition env_pg_down :: collab where
  "env_pg_down = env_ok\<lparr>pg_connect := Some (CollaboratorError (str ''connection refused''))\<rparr>"

text \<open>The model call raises.\<close>

definition env_gen_down :: collab where
  "env_gen_down =
     env_ok\<lparr>generate_content := (\<lambda>p. Inl (CollaboratorError (str ''unavailable'')))\<rparr>"

text \<open>The graph query and the relational query both fail once sent.\<close>

definition env_query_errors :: collab where
  "env_query_errors =
     env_ok\<lparr>session_run := (\<lambda>q. ([], Some (CollaboratorError (str ''bad query'')))),
            cur_execute := (\<lambda>q. Inl (CollaboratorError (str ''bad query'')))\<rparr>"

text \<open>A tool that has just been constructed.\<close>

definition st0 :: tool where
  "st0 = \<lparr> neo4j_driver = False, pg_conn = False, calls = [] \<rparr>"

definition request :: "bool \<Rightarrow> bool \<Rightarrow> bool \<Rightarrow> int \<Rightarrow> int \<Rightarrow> params" where
  "request sem gr dt budget results =
     \<lparr> query = str ''x'', use_semantic = sem, use_graph = gr, use_dates = dt,
       chunk_size = budget, max_results = results, date_range = str ''all'',
       smart_chunking = True, output_format = str ''summary'' \<rparr>"

text \<open>What a call returned, if it returned, and what it raised, if it raised.\<close>

definition returned :: "(exn + 'a) \<times> tool \<Rightarrow> 'a option" where
  "returned x = (case fst x of Inl e \<Rightarrow> None | Inr r \<Rightarrow> Some r)"

definition raised :: "(exn + 'a) \<times> tool \<Rightarrow> exn option" where
  "raised x = (case fst x of Inl e \<Rightarrow> Some e | Inr r \<Rightarrow> None)"

text \<open>What a response shows, for a call of \<open>execute\<close> that returned.\<close>

definition usage_of :: "string \<Rightarrow> (exn + response) \<times> tool \<Rightarrow> int option" where
  "usage_of name x =
     (case returned x of None \<Rightarrow> None | Some r \<Rightarrow> map_of (context_usage r) name)"

definition analysis_of :: "(exn + response) \<times> tool \<Rightarrow> pystr option" where
  "analysis_of x =
     (case returned x of
        None \<Rightarrow> None
      | Some r \<Rightarrow>
          (case res_semantic_analysis r of
             None \<Rightarrow> None
           | Some d \<Rightarrow> (case map_of d ''analysis'' of Some (VStr s) \<Rightarrow> Some s | _ \<Rightarrow> None)))"

definition semantic_error_of :: "(exn + response) \<times> tool \<Rightarrow> pyval option" where
  "semantic_error_of x =
     (case returned x of
        None \<Rightarrow> None
      | Some r \<Rightarrow>
          (case res_semantic_analysis r of None \<Rightarrow> None | Some d \<Rightarrow> map_of d ''error''))"

definition graph_data_of :: "(exn + response) \<times> tool \<Rightarrow> pydict option" where
  "graph_data_of x = (case returned x of None \<Rightarrow> None | Some r \<Rightarrow> graph_data r)"

definition summary_of :: "(exn + response) \<times> tool \<Rightarrow> pystr option" where
  "summary_of x = (case returned x of None \<Rightarrow> None | Some r \<Rightarrow> Some (combined_summary r))"

text \<open>
  Collaborators whose stores return no rows, as a query with \<open>LIMIT 0\<close> does.
\<close>

definition env_no_rows :: collab where
  "env_no_rows = env_ok\<lparr>session_run := (\<lambda>q. ([], None)), cur_execute := (\<lambda>q. Inr [])\<rparr>"

text \<open>
  The form \<open>YYYY-YYYY\<close> of a date range: four digits, a hyphen, four digits.
  The source has no such test; the predicate only delimits the values about
  which the statement on date ranges says nothing.
\<close>

definition is_digit :: "nat \<Rightarrow> bool" where
  "is_digit c = (48 \<le> c \<and> c \<le> 57)"

definition year_range_form :: "pystr \<Rightarrow> bool" where
  "year_range_form s =
     (length s = 9 \<and> list_all is_digit (take 4 s) \<and> s ! 4 = 45
      \<and> list_all is_digit (drop 5 s))"

section \<open>Properties of the chunker\<close>

lemma join_member:
  "s \<in> set xs \<Longrightarrow> \<exists>pre post. join sep xs = pre @ s @ post"
proof (induction sep xs rule: join.induct)
  case (1 sep)
  then show ?case by simp
next
  case (2 sep x)
  then have "join sep [x] = [] @ s @ []" by simp
  then show ?case by blast
next
  case (3 sep x y ys)
  show ?case
  proof (cases "s = x")
    case True
    then have "join sep (x # y # ys) = [] @ s @ (sep @ join sep (y # ys))" by simp
    then show ?thesis by blast
  next
    case False
    with 3 obtain pre post where "join sep (y # ys) = pre @ s @ post" by auto
    then have "join sep (x # y # ys) = (x @ sep @ pre) @ s @ post" by simp
    then show ?thesis by blast
  qed
qed

text \<open>\<open>contains\<close> is the substring relation.\<close>

lemma contains_iff: "contains hay needle \<longleftrightarrow> (\<exists>pre post. hay = pre @ needle @ post)"
proof (induction hay)
  case Nil
  then show ?case by auto
next
  case (Cons c cs)
  show ?case
  proof
    assume "contains (c # cs) needle"
    then consider "prefix needle (c # cs)" | "contains cs needle" by auto
    then show "\<exists>pre post. c # cs = pre @ needle @ post"
    proof cases
      case 1
      then obtain post where "c # cs = [] @ needle @ post" by (auto simp: prefix_def)
      then show ?thesis by blast
    next
      case 2
      with Cons obtain pre post where "cs = pre @ needle @ post" by auto
      then have "c # cs = (c # pre) @ needle @ post" by simp
      then show ?thesis by blast
    qed
  next
    assume "\<exists>pre post. c # cs = pre @ needle @ post"
    then obtain pre post where e: "c # cs = pre @ needle @ post" by blast
    show "contains (c # cs) needle"
    proof (cases pre)
      case Nil
      with e have "prefix needle (c # cs)" by (simp add: prefix_def)
      then show ?thesis by simp
    next
      case (Cons a pre')
      with e have "cs = pre' @ needle @ post" by simp
      with Cons.IH have "contains cs needle" by blast
      then show ?thesis by simp
    qed
  qed
qed

text \<open>
  C1. The claim is that the chunker's output is never longer than the budget
  (for budgets of at least 4). The code does not keep it. Without smart
  chunking the head and the tail already add up to the budget and the
  three-character ellipsis comes on top: \<open>"abcdef"\<close> with budget 5 gives
  \<open>"abc...ef"\<close>, 8 characters. With smart chunking the room left for regular
  text, \<open>chunk_size - len(important_text) - 10\<close>, can be negative, and the slice
  \<open>regular_text[:remaining_space]\<close> then drops characters from the end instead
  of keeping none: \<open>"abcdefgh"\<close> with budget 5 gives \<open>". abc..."\<close>, 8 characters.
\<close>

theorem chunk_text_over_budget:
  "chunk_text (str ''abcdef'') 5 False = str ''abc...ef'' \<and>
   length (chunk_text (str ''abcdef'') 5 False) = 8 \<and>
   chunk_text (str ''abcdefgh'') 5 True = str ''. abc...'' \<and>
   length (chunk_text (str ''abcdefgh'') 5 True) = 8"
  by code_simp

text \<open>
  C5, as stated: when the joined salient sentences are no longer than the
  budget, each of them is in the output. At equality the code takes the
  truncating branch (\<open>len(important_text) >= chunk_size\<close>): for \<open>"mostra. x"\<close>
  and budget 6 the salient text \<open>"mostra"\<close> has length 6 and the output is
  \<open>"mos..."\<close>.
\<close>

theorem salient_cut_counterexample:
  "int (length (str ''mostra. x'')) > 6 \<and>
   str ''mostra'' \<in> set (split (str ''. '') (str ''mostra. x'')) \<and>
   important (str ''mostra'') \<and>
   int (length (join (str ''. '')
                  (filter important (split (str ''. '') (str ''mostra. x''))))) \<le> 6 \<and>
   chunk_text (str ''mostra. x'') 6 True = str ''mos...'' \<and>
   \<not> contains (chunk_text (str ''mostra. x'') 6 True) (str ''mostra'')"
  by code_simp

text \<open>
  C5, amended: for a text longer than the budget chunked with smart chunking,
  if the salient sentences joined by \<open>". "\<close> are strictly shorter than the
  budget, every salient sentence is a substring of the output.
\<close>

theorem salient_kept:
  assumes long: "budget < int (length text)"
    and fits: "int (length (join (str ''. '')
                 (filter important (split (str ''. '') text)))) < budget"
    and sent: "s \<in> set (split (str ''. '') text)"
    and sal: "important s"
  shows "\<exists>pre post. chunk_text text budget True = pre @ s @ post"
proof -
  let ?imp = "join (str ''. '') (filter important (split (str ''. '') text))"
  from sent sal have "s \<in> set (filter important (split (str ''. '') text))" by simp
  then obtain pre post where imp: "?imp = pre @ s @ post"
    using join_member by blast
  from long fits have "\<exists>rest. chunk_text text budget True = ?imp @ rest"
    by (simp add: chunk_text_def Let_def)
  then obtain rest where "chunk_text text budget True = ?imp @ rest" by blast
  with imp have "chunk_text text budget True = pre @ s @ (post @ rest)" by simp
  then show ?thesis by blast
qed

theorem salient_kept_witness:
  "\<exists>pre post. chunk_text (str ''mostra. x'') 7 True = pre @ str ''mostra'' @ post"
proof -
  have a: "7 < int (length (str ''mostra. x''))" by (simp add: str_def)
  have sp: "split (str ''. '') (str ''mostra. x'') = [str ''mostra'', str ''x'']"
    by code_simp
  have i1: "important (str ''mostra'')" by code_simp
  have i2: "\<not> important (str ''x'')" by code_simp
  have b: "int (length (join (str ''. '')
             (filter important (split (str ''. '') (str ''mostra. x''))))) < 7"
    by (simp add: sp i1 i2) (simp add: str_def)
  have c: "str ''mostra'' \<in> set (split (str ''. '') (str ''mostra. x''))"
    by (simp add: sp)
  show ?thesis using salient_kept [OF a b c i1] .
qed

text \<open>
  C8. A text no longer than the budget is returned unchanged, with or without
  smart chunking; so chunking again any output that fits the budget changes
  nothing.
\<close>

theorem chunk_text_identity:
  "(int (length text) \<le> budget \<longrightarrow> chunk_text text budget smart = text) \<and>
   (int (length (chunk_text text budget smart)) \<le> budget \<longrightarrow>
      chunk_text (chunk_text text budget smart) budget smart
        = chunk_text text budget smart)"
  by (simp add: chunk_text_def)

theorem chunk_text_identity_witness:
  "int (length (str ''short text'')) \<le> 100 \<and>
   chunk_text (str ''short text'') 100 True = str ''short text'' \<and>
   int (length (chunk_text (str ''short text'') 100 True)) \<le> 100 \<and>
   chunk_text (chunk_text (str ''short text'') 100 True) 100 True
     = chunk_text (str ''short text'') 100 True"
  using chunk_text_identity [of "str ''short text''" 100 True]
  by (simp add: str_def)

section \<open>Properties of the adapters\<close>

lemma split_ws_from_spaces:
  "\<forall>c \<in> set q. is_space c \<Longrightarrow> split_ws_from [] q = []"
  by (induction q) auto

lemma semantic_shape:
  "fst (semantic_analysis env st q cs) = Inr d \<Longrightarrow>
     (\<exists>e. d = error_result e ''tokens_used'') \<or>
     (\<exists>focus t. d = [(''entities'', VList []),
                     (''query_type'', VStr (str ''ricerca'')),
                     (''focus'', VStr focus),
                     (''analysis'', VStr (chunk_text t cs True)),
                     (''tokens_used'',
                        VInt (int (length (prompt q))
                              + int (length (chunk_text t cs True))))])"
  by (auto simp: semantic_analysis_def Let_def split: sum.splits)

lemma semantic_total:
  "\<exists>d. semantic_analysis env st q cs
         = (Inr d, called (GenerateContent (prompt q)) st)"
  by (auto simp: semantic_analysis_def Let_def split: sum.splits)

lemma graph_shape:
  "fst (graph_analysis env st q mr cs) = Inr d \<Longrightarrow>
     (\<exists>e. d = error_result e ''char_used'') \<or>
     (\<exists>results. d = [(''collaborations'', VList results),
                     (''total_found'', VInt (int (length results))),
                     (''query_executed'',
                        VStr (slice_to (cypher_query mr) 100 @ str ''...'')),
                     (''char_used'', VInt (int (sum_list (map length results))))])"
  by (auto simp: graph_analysis_def Let_def split: sum.splits prod.splits option.splits)

lemma temporal_shape:
  "fst (temporal_analysis env st q dr mr cs) = Inr d \<Longrightarrow>
     (\<exists>e. d = error_result e ''char_used'') \<or>
     (\<exists>results. d = [(''timeline'', VList results),
                     (''date_range'', VStr dr),
                     (''total_years'', VInt (int (length results))),
                     (''char_used'', VInt (int (sum_list (map length results))))])"
  by (auto simp: temporal_analysis_def Let_def split: sum.splits prod.splits option.splits)

text \<open>
  C3. The claim is that no collaborator exception leaves an adapter. The
  semantic adapter keeps it: everything it does is inside its \<open>try\<close>. The
  graph and temporal adapters call \<open>_setup_connections\<close> and open the session or
  cursor before their \<open>try\<close>, so a connection failure leaves them, and with
  them \<open>execute\<close>: when \<open>psycopg2.connect\<close> raises, both adapters raise (the graph
  adapter too, since it sets up both connections).
\<close>

theorem collaborator_exception_propagates:
  "raised (graph_analysis env_pg_down st0 (str ''x'') 10 2000)
     = Some (CollaboratorError (str ''connection refused'')) \<and>
   raised (temporal_analysis env_pg_down st0 (str ''x'') (str ''all'') 10 2000)
     = Some (CollaboratorError (str ''connection refused'')) \<and>
   raised (execute env_pg_down st0 (request True True False 2000 10))
     = Some (CollaboratorError (str ''connection refused''))"
  by code_simp

text \<open>
  C9. Whatever the collaborators answer, a dictionary returned by an adapter
  that has the key \<open>error\<close> has usage 0: \<open>tokens_used\<close> for the semantic adapter,
  \<open>char_used\<close> for the graph and temporal adapters.
\<close>

theorem error_zero_usage:
  "(fst (semantic_analysis env st q cs) = Inr d \<and> map_of d ''error'' \<noteq> None
      \<longrightarrow> map_of d ''tokens_used'' = Some (VInt 0)) \<and>
   (fst (graph_analysis env st q mr cs) = Inr d
      \<and> map_of d ''error'' \<noteq> None
      \<longrightarrow> map_of d ''char_used'' = Some (VInt 0)) \<and>
   (fst (temporal_analysis env st q dr mr cs) = Inr d
      \<and> map_of d ''error'' \<noteq> None
      \<longrightarrow> map_of d ''char_used'' = Some (VInt 0))"
proof (intro conjI impI)
  assume "fst (semantic_analysis env st q cs) = Inr d \<and> map_of d ''error'' \<noteq> None"
  then show "map_of d ''tokens_used'' = Some (VInt 0)"
    using semantic_shape [of env st q cs d]
    by (auto simp: error_result_def)
next
  assume "fst (graph_analysis env st q mr cs) = Inr d
      \<and> map_of d ''error'' \<noteq> None"
  then show "map_of d ''char_used'' = Some (VInt 0)"
    using graph_shape [of env st q mr cs d]
    by (auto simp: error_result_def)
next
  assume "fst (temporal_analysis env st q dr mr cs) = Inr d
      \<and> map_of d ''error'' \<noteq> None"
  then show "map_of d ''char_used'' = Some (VInt 0)"
    using temporal_shape [of env st q dr mr cs d]
    by (auto simp: error_result_def)
qed

theorem error_zero_usage_witness:
  "fst (semantic_analysis env_gen_down st0 (str ''x'') 2000)
     = Inr (error_result (CollaboratorError (str ''unavailable'')) ''tokens_used'') \<and>
   map_of (error_result (CollaboratorError (str ''unavailable'')) ''tokens_used'')
     ''tokens_used'' = Some (VInt 0) \<and>
   fst (graph_analysis env_query_errors st0 (str ''x'') 10 2000)
     = Inr (error_result (CollaboratorError (str ''bad query'')) ''char_used'') \<and>
   fst (temporal_analysis env_query_errors st0 (str ''x'') (str ''all'') 10 2000)
     = Inr (error_result (CollaboratorError (str ''bad query'')) ''char_used'') \<and>
   map_of (error_result (CollaboratorError (str ''bad query'')) ''char_used'')
     ''char_used'' = Some (VInt 0)"
proof -
  let ?u = "error_result (CollaboratorError (str ''unavailable'')) ''tokens_used''"
  let ?b = "error_result (CollaboratorError (str ''bad query'')) ''char_used''"
  have s: "fst (semantic_analysis env_gen_down st0 (str ''x'') 2000) = Inr ?u"
    by (simp add: semantic_analysis_def env_gen_down_def env_ok_def Let_def)
  have g: "fst (graph_analysis env_query_errors st0 (str ''x'') 10 2000) = Inr ?b"
    by (simp add: graph_analysis_def setup_connections_def env_query_errors_def
        env_ok_def st0_def called_def Let_def)
  have t: "fst (temporal_analysis env_query_errors st0 (str ''x'') (str ''all'') 10 2000)
             = Inr ?b"
    by (simp add: temporal_analysis_def setup_connections_def env_query_errors_def
        env_ok_def st0_def called_def Let_def)
  have eu: "map_of ?u ''error'' \<noteq> None" by (simp add: error_result_def)
  have eb: "map_of ?b ''error'' \<noteq> None" by (simp add: error_result_def)
  from error_zero_usage [of env_gen_down st0 "str ''x''" 2000 ?u 10 "str ''all''"] s eu
  have 1: "map_of ?u ''tokens_used'' = Some (VInt 0)" by blast
  from error_zero_usage [of env_query_errors st0 "str ''x''" 2000 ?b 10 "str ''all''"] g eb
  have 2: "map_of ?b ''char_used'' = Some (VInt 0)" by blast
  from s g t 1 2 show ?thesis by blast
qed

text \<open>
  C10. A query that is not empty and holds only whitespace passes the test
  \<open>if query\<close>, \<open>query.split()\<close> is the empty list and \<open>[0]\<close> raises
  \<open>IndexError\<close> inside the \<open>try\<close>: the semantic adapter returns an error result
  with \<open>tokens_used = 0\<close>, whose message is the one of the \<open>IndexError\<close>
  whenever the model call itself returned.
\<close>

theorem whitespace_query_error:
  assumes "q \<noteq> []" and "\<forall>c \<in> set q. is_space c"
  shows "\<exists>e. fst (semantic_analysis env st q cs)
            = Inr [(''error'', VStr e), (''tokens_used'', VInt 0)]
          \<and> (\<forall>t. generate_content env (prompt q) = Inr t
                \<longrightarrow> e = str ''list index out of range'')"
proof -
  from assms have f: "focus_of q = Inl IndexError"
    by (simp add: focus_of_def split_ws_def split_ws_from_spaces)
  show ?thesis
  proof (cases "generate_content env (prompt q)")
    case (Inl e)
    then show ?thesis
      by (simp add: semantic_analysis_def error_result_def Let_def)
  next
    case (Inr t)
    with f show ?thesis
      by (simp add: semantic_analysis_def error_result_def Let_def)
  qed
qed

theorem whitespace_query_error_witness:
  "fst (semantic_analysis env_ok st0 (str ''  '') 2000)
     = Inr [(''error'', VStr (str ''list index out of range'')), (''tokens_used'', VInt 0)]"
proof -
  have a: "str ''  '' \<noteq> []" by (simp add: str_def)
  have b: "\<forall>c \<in> set (str ''  ''). is_space c" by (simp add: str_def is_space_def)
  have g: "generate_content env_ok (prompt (str ''  '')) = Inr (str ''ok'')"
    by (simp add: env_ok_def)
  from whitespace_query_error [OF a b, of env_ok st0 2000] g show ?thesis by auto
qed

section \<open>Properties of the orchestrator\<close>

lemma temporal_calls:
  "set (calls st) \<subseteq> set (calls (snd (temporal_analysis env st q dr mr cs)))"
  by (auto simp: temporal_analysis_def setup_connections_def called_def Let_def
      split: option.splits sum.splits)

lemma execute_steps:
  "execute env st p =
     (let S = step (use_semantic p)
                (\<lambda>s. semantic_analysis env s (query p) (chunk_size p)) st;
          G = step (use_graph p)
                (\<lambda>s. graph_analysis env s (query p) (max_results p) (chunk_size p)) (snd S);
          T = step (use_dates p)
                (\<lambda>s. temporal_analysis env s (query p) (date_range p) (max_results p)
                       (chunk_size p)) (snd G)
      in case fst S of
           Inl e \<Rightarrow> (Inl e, snd S)
         | Inr sr \<Rightarrow>
             (case fst G of
                Inl e \<Rightarrow> (Inl e, snd G)
              | Inr gr \<Rightarrow>
                  (case fst T of
                     Inl e \<Rightarrow> (Inl e, snd T)
                   | Inr tr \<Rightarrow> (Inr (build_response p sr gr tr), snd T))))"
  by (simp add: execute_def Let_def split: prod.splits sum.splits)

lemma semantic_step:
  "\<exists>sr. step flag (\<lambda>s. semantic_analysis env s q cs) st
          = (Inr sr, if flag then called (GenerateContent (prompt q)) st else st)"
  using semantic_total [of env st q cs] by (auto simp: step_def)

lemma graph_raised:
  "fst (graph_analysis env st q mr cs) = Inl e \<Longrightarrow>
     graph_driver env = Some e \<or> pg_connect env = Some e \<or> graph_session env = Some e"
  by (auto simp: graph_analysis_def setup_connections_def Let_def
      split: option.splits sum.splits prod.splits if_splits)

lemma temporal_raised:
  "fst (temporal_analysis env st q dr mr cs) = Inl e \<Longrightarrow>
     graph_driver env = Some e \<or> pg_connect env = Some e \<or> pg_cursor env = Some e"
  by (auto simp: temporal_analysis_def setup_connections_def Let_def
      split: option.splits sum.splits prod.splits if_splits)

lemma graph_calls:
  "set (calls st) \<subseteq> set (calls (snd (graph_analysis env st q mr cs)))"
  by (auto simp: graph_analysis_def setup_connections_def called_def Let_def
      split: option.splits sum.splits prod.splits)

lemma graph_sent:
  assumes "graph_driver env = None" and "pg_connect env = None"
    and "graph_session env = None"
  shows "SessionRun (cypher_query mr) \<in> set (calls (snd (graph_analysis env st q mr cs)))"
  using assms
  by (auto simp: graph_analysis_def setup_connections_def called_def Let_def
      split: option.splits sum.splits prod.splits)

lemma step_raised:
  "fst (step flag f st) = Inl e \<Longrightarrow> flag \<and> fst (f st) = Inl e"
  by (auto simp: step_def split: if_splits prod.splits sum.splits)

lemma step_state:
  "snd (step flag f st) = (if flag then snd (f st) else st)"
  by (auto simp: step_def split: prod.splits sum.splits)

lemma prompt_length: "length (prompt q) = length q + 259"
  by (simp add: prompt_def str_def)

lemma focus_x: "focus_of (str ''x'') = Inr (str ''x'')"
  by (simp add: focus_of_def split_ws_def str_def is_space_def)

lemma chunk_ok: "chunk_text (str ''ok'') 2000 True = str ''ok''"
  by (simp add: chunk_text_def str_def)

lemma semantic_ok:
  "semantic_analysis env_ok st (str ''x'') 2000
     = (Inr [(''entities'', VList []),
             (''query_type'', VStr (str ''ricerca'')),
             (''focus'', VStr (str ''x'')),
             (''analysis'', VStr (str ''ok'')),
             (''tokens_used'', VInt 262)],
        called (GenerateContent (prompt (str ''x''))) st)"
proof -
  have "int (length (prompt (str ''x''))) + int (length (str ''ok'')) = 262"
    by (simp add: prompt_length) (simp add: str_def)
  then show ?thesis
    by (simp add: semantic_analysis_def env_ok_def focus_x chunk_ok Let_def)
qed

lemma semantic_down:
  "semantic_analysis env_gen_down st (str ''x'') 2000
     = (Inr (error_result (CollaboratorError (str ''unavailable'')) ''tokens_used''),
        called (GenerateContent (prompt (str ''x''))) st)"
  by (simp add: semantic_analysis_def env_gen_down_def env_ok_def Let_def)

text \<open>
  C2, as stated: \<open>execute\<close> checks \<open>chunk_size > 0\<close> and \<open>max_results > 0\<close> and
  fails with a validation error before any collaborator call. With
  \<open>max_results = 0\<close> and the graph enabled the request returns normally, after
  the driver, the connection, the session and the query itself have been
  called; the query with \<open>LIMIT 0\<close> yields no record and \<open>graph_data\<close> is an
  ordinary empty result.
\<close>

theorem execute_no_validation_counterexample:
  "raised (execute env_no_rows st0 (request False True False 2000 0)) = None \<and>
   graph_data_of (execute env_no_rows st0 (request False True False 2000 0))
     = Some [(''collaborations'', VList []),
             (''total_found'', VInt 0),
             (''query_executed'', VStr (slice_to (cypher_query 0) 100 @ str ''...'')),
             (''char_used'', VInt 0)] \<and>
   calls (snd (execute env_no_rows st0 (request False True False 2000 0)))
     = [Neo4jDriver, PgConnect, Neo4jSession, SessionRun (cypher_query 0)]"
proof -
  have "execute env_no_rows st0 (request False True False 2000 0)
          = (Inr (build_response (request False True False 2000 0) None
                    (Some [(''collaborations'', VList []),
                           (''total_found'', VInt 0),
                           (''query_executed'',
                              VStr (slice_to (cypher_query 0) 100 @ str ''...'')),
                           (''char_used'', VInt 0)]) None),
             \<lparr> neo4j_driver = True, pg_conn = True,
               calls = [Neo4jDriver, PgConnect, Neo4jSession,
                        SessionRun (cypher_query 0)] \<rparr>)"
    by (simp add: execute_def step_def request_def graph_analysis_def
        setup_connections_def env_no_rows_def env_ok_def st0_def called_def Let_def)
  then show ?thesis
    by (simp add: raised_def graph_data_of_def returned_def build_response_def Let_def)
qed

text \<open>
  C2, amended: \<open>execute\<close> validates neither \<open>chunk_size\<close> nor \<open>max_results\<close>.
  For every request, whatever the two values are, non-positive included: an
  exception leaves \<open>execute\<close> only when the graph or the temporal adapter is
  enabled, and it is then the exception a collaborator raised on creating the
  driver, connecting, opening the session or opening the cursor, never a
  validation error; when none of these four raises, \<open>execute\<close> returns a
  response; the model is called whenever \<open>use_semantic\<close> is set; and with
  \<open>use_graph\<close> set the graph query with \<open>LIMIT max_results\<close> is sent as soon
  as the driver, the connection and the session are there.
\<close>

theorem execute_no_validation:
  "(\<forall>e. raised (execute env st p) = Some e \<longrightarrow>
        (use_graph p \<or> use_dates p) \<and>
        (graph_driver env = Some e \<or> pg_connect env = Some e
         \<or> graph_session env = Some e \<or> pg_cursor env = Some e)) \<and>
   (graph_driver env = None \<and> pg_connect env = None \<and> graph_session env = None
      \<and> pg_cursor env = None \<longrightarrow>
      (\<exists>r. returned (execute env st p) = Some r)) \<and>
   (use_semantic p \<longrightarrow>
      GenerateContent (prompt (query p)) \<in> set (calls (snd (execute env st p)))) \<and>
   (use_graph p \<and> graph_driver env = None \<and> pg_connect env = None
      \<and> graph_session env = None \<longrightarrow>
      SessionRun (cypher_query (max_results p)) \<in> set (calls (snd (execute env st p))))"
proof -
  let ?S = "step (use_semantic p)
              (\<lambda>s. semantic_analysis env s (query p) (chunk_size p)) st"
  let ?G = "step (use_graph p)
              (\<lambda>s. graph_analysis env s (query p) (max_results p) (chunk_size p)) (snd ?S)"
  let ?T = "step (use_dates p)
              (\<lambda>s. temporal_analysis env s (query p) (date_range p) (max_results p)
                     (chunk_size p)) (snd ?G)"
  obtain sr where S: "?S = (Inr sr, if use_semantic p
                                     then called (GenerateContent (prompt (query p))) st
                                     else st)"
    using semantic_step by blast
  have sG: "set (calls (snd ?S)) \<subseteq> set (calls (snd ?G))"
    by (simp add: step_state graph_calls)
  have sT: "set (calls (snd ?G)) \<subseteq> set (calls (snd ?T))"
    by (simp add: step_state temporal_calls)
  have final: "snd (execute env st p) = snd ?G \<or> snd (execute env st p) = snd ?T"
    by (simp add: execute_steps Let_def S split: sum.splits)
  have 1: "\<forall>e. raised (execute env st p) = Some e \<longrightarrow>
        (use_graph p \<or> use_dates p) \<and>
        (graph_driver env = Some e \<or> pg_connect env = Some e
         \<or> graph_session env = Some e \<or> pg_cursor env = Some e)"
  proof (intro allI impI)
    fix e
    assume r: "raised (execute env st p) = Some e"
    then consider "fst ?G = Inl e" | "fst ?T = Inl e"
      by (auto simp: raised_def execute_steps Let_def S split: sum.splits)
    then show "(use_graph p \<or> use_dates p) \<and>
        (graph_driver env = Some e \<or> pg_connect env = Some e
         \<or> graph_session env = Some e \<or> pg_cursor env = Some e)"
    proof cases
      case 1
      from step_raised [OF 1] graph_raised show ?thesis by blast
    next
      case 2
      from step_raised [OF 2] temporal_raised show ?thesis by blast
    qed
  qed
  have 2: "graph_driver env = None \<and> pg_connect env = None \<and> graph_session env = None
      \<and> pg_cursor env = None \<longrightarrow> (\<exists>r. returned (execute env st p) = Some r)"
  proof
    assume n: "graph_driver env = None \<and> pg_connect env = None \<and> graph_session env = None
      \<and> pg_cursor env = None"
    show "\<exists>r. returned (execute env st p) = Some r"
    proof (cases "fst (execute env st p)")
      case (Inl e)
      then have "raised (execute env st p) = Some e" by (simp add: raised_def)
      with 1 n show ?thesis by auto
    next
      case (Inr r)
      then show ?thesis by (simp add: returned_def)
    qed
  qed
  have 3: "use_semantic p \<longrightarrow>
      GenerateContent (prompt (query p)) \<in> set (calls (snd (execute env st p)))"
  proof
    assume u: "use_semantic p"
    have "snd ?S = (if use_semantic p
                    then called (GenerateContent (prompt (query p))) st else st)"
      unfolding S by simp
    with u have "GenerateContent (prompt (query p)) \<in> set (calls (snd ?S))"
      by (simp add: called_def)
    with sG sT final show
      "GenerateContent (prompt (query p)) \<in> set (calls (snd (execute env st p)))"
      by auto
  qed
  have 4: "use_graph p \<and> graph_driver env = None \<and> pg_connect env = None
      \<and> graph_session env = None \<longrightarrow>
      SessionRun (cypher_query (max_results p)) \<in> set (calls (snd (execute env st p)))"
  proof
    assume a: "use_graph p \<and> graph_driver env = None \<and> pg_connect env = None
      \<and> graph_session env = None"
    then have "SessionRun (cypher_query (max_results p)) \<in> set (calls (snd ?G))"
      by (simp add: step_state graph_sent)
    with sT final show
      "SessionRun (cypher_query (max_results p)) \<in> set (calls (snd (execute env st p)))"
      by auto
  qed
  from 1 2 3 4 show ?thesis by blast
qed

theorem execute_no_validation_witness:
  "(\<exists>r. returned (execute env_no_rows st0 (request True True True 0 0)) = Some r) \<and>
   GenerateContent (prompt (str ''x''))
     \<in> set (calls (snd (execute env_no_rows st0 (request True True True 0 0)))) \<and>
   SessionRun (cypher_query 0)
     \<in> set (calls (snd (execute env_no_rows st0 (request True True True 0 0)))) \<and>
   raised (execute env_pg_down st0 (request False True False (- 5) 0))
     = Some (CollaboratorError (str ''connection refused'')) \<and>
   pg_connect env_pg_down = Some (CollaboratorError (str ''connection refused''))"
proof -
  let ?p = "request True True True 0 0"
  have n: "graph_driver env_no_rows = None \<and> pg_connect env_no_rows = None
           \<and> graph_session env_no_rows = None \<and> pg_cursor env_no_rows = None"
    by (simp add: env_no_rows_def env_ok_def)
  have f: "use_semantic ?p" "use_graph ?p" "query ?p = str ''x''" "max_results ?p = 0"
    by (simp_all add: request_def)
  from execute_no_validation [of env_no_rows st0 ?p] n f
  have a: "(\<exists>r. returned (execute env_no_rows st0 ?p) = Some r) \<and>
           GenerateContent (prompt (str ''x'')) \<in> set (calls (snd (execute env_no_rows st0 ?p))) \<and>
           SessionRun (cypher_query 0) \<in> set (calls (snd (execute env_no_rows st0 ?p)))"
    by simp
  let ?q = "request False True False (- 5) 0"
  let ?e = "CollaboratorError (str ''connection refused'')"
  have r: "raised (execute env_pg_down st0 ?q) = Some ?e"
    by (simp add: raised_def execute_def step_def request_def graph_analysis_def
        setup_connections_def env_pg_down_def env_ok_def st0_def called_def Let_def)
  have o: "graph_driver env_pg_down \<noteq> Some ?e" "graph_session env_pg_down \<noteq> Some ?e"
    "pg_cursor env_pg_down \<noteq> Some ?e"
    by (simp_all add: env_pg_down_def env_ok_def)
  from execute_no_validation [of env_pg_down st0 ?q] r o
  have b: "pg_connect env_pg_down = Some ?e" by blast
  from a r b show ?thesis by blast
qed

text \<open>
  C4, as stated: every entry of \<open>context_usage\<close> is the length of the text
  surfaced for its system, 0 when the system was not invoked. For the semantic
  system the entry is \<open>tokens_used\<close>, which adds the length of the prompt: the
  analysis \<open>ok\<close> has 2 characters and the entry is 262. A system that was not
  invoked has no entry.
\<close>

theorem context_usage_counterexample:
  "analysis_of (execute env_ok st0 (request True False False 2000 10)) = Some (str ''ok'') \<and>
   int (length (str ''ok'')) = 2 \<and>
   usage_of ''semantic'' (execute env_ok st0 (request True False False 2000 10)) = Some 262 \<and>
   usage_of ''graph'' (execute env_ok st0 (request True False False 2000 10)) = None"
proof -
  have "returned (execute env_ok st0 (request True False False 2000 10))
          = Some (build_response (request True False False 2000 10)
                    (Some [(''entities'', VList []),
                           (''query_type'', VStr (str ''ricerca'')),
                           (''focus'', VStr (str ''x'')),
                           (''analysis'', VStr (str ''ok'')),
                           (''tokens_used'', VInt 262)]) None None)"
    by (simp add: execute_def step_def request_def semantic_ok returned_def)
  then show ?thesis
    by (simp add: analysis_of_def usage_of_def build_response_def usage_def get_int_def
        Let_def) (simp add: str_def)
qed

text \<open>
  C6, as stated: an adapter whose result has \<open>error\<close> set adds no fragment to
  \<open>combined_summary\<close>. The semantic fragment is added whenever the semantic
  result is a non-empty dictionary, and the error result is one: the fragment
  then shows the default \<open>N/A\<close> of \<open>get('analysis', 'N/A')\<close>.
\<close>

theorem summary_counterexample:
  "semantic_error_of (execute env_gen_down st0 (request True False False 2000 10))
     = Some (VStr (str ''unavailable'')) \<and>
   summary_of (execute env_gen_down st0 (request True False False 2000 10))
     = Some ([129504] @ str '' Semantico: N/A'')"
proof -
  have "returned (execute env_gen_down st0 (request True False False 2000 10))
          = Some (build_response (request True False False 2000 10)
                    (Some (error_result (CollaboratorError (str ''unavailable''))
                             ''tokens_used'')) None None)"
    by (simp add: execute_def step_def request_def semantic_down returned_def)
  then show ?thesis
    by (simp add: semantic_error_of_def summary_of_def build_response_def
        summary_parts_def semantic_part_def graph_part_def temporal_part_def
        error_result_def get_str_def slice_to_def Let_def)
       (simp add: str_def)
qed

text \<open>
  C7, as stated: \<open>all\<close> gives no date restriction and every \<open>YYYY-YYYY\<close> value
  gives the bounds of its years. For \<open>all\<close> the filter is the date-not-null
  restriction, and for \<open>2019-2021\<close> it is that same filter and not the bounds
  2019-01-01 and 2022-01-01.
\<close>

theorem date_filter_counterexample:
  "date_filter env_ok (str ''2019-2021'') = str ''published_date IS NOT NULL'' \<and>
   date_filter env_ok (str ''2019-2021'')
     \<noteq> str ''published_date >= '' @ [39] @ str ''2019-01-01'' @ [39]
        @ str '' AND published_date < '' @ [39] @ str ''2022-01-01'' @ [39] \<and>
   date_filter env_ok (str ''all'') = str ''published_date IS NOT NULL''"
  by code_simp

lemma execute_returned:
  assumes "execute env st p = (Inr r, st')"
  shows "\<exists>sr gr tr st1 st2.
           step (use_semantic p) (\<lambda>s. semantic_analysis env s (query p) (chunk_size p)) st
             = (Inr sr, st1)
         \<and> step (use_graph p)
               (\<lambda>s. graph_analysis env s (query p) (max_results p) (chunk_size p)) st1
             = (Inr gr, st2)
         \<and> step (use_dates p)
               (\<lambda>s. temporal_analysis env s (query p) (date_range p) (max_results p)
                      (chunk_size p)) st2
             = (Inr tr, st')
         \<and> r = build_response p sr gr tr"
  using assms
  by (auto simp: execute_def split: prod.splits sum.splits)

lemma step_result:
  assumes "step flag f st = (Inr res, st1)"
  shows "(res = None) = (\<not> flag)" and "\<And>d. res = Some d \<Longrightarrow> fst (f st) = Inr d"
  using assms by (auto simp: step_def split: if_splits prod.splits sum.splits)

lemma semantic_usage:
  assumes "fst (semantic_analysis env st q cs) = Inr d"
  shows "get_int d ''tokens_used'' 0 =
           (if map_of d ''error'' \<noteq> None then 0
            else int (length (prompt q)) + int (length (get_str d ''analysis'' [])))"
  using semantic_shape [OF assms]
  by (auto simp: get_int_def get_str_def error_result_def)

lemma graph_usage:
  assumes "fst (graph_analysis env st q mr cs) = Inr d"
  shows "get_int d ''char_used'' 0 =
           (if map_of d ''error'' \<noteq> None then 0
            else int (sum_list (map length (get_list d ''collaborations''))))"
  using graph_shape [OF assms]
  by (auto simp: get_int_def get_list_def error_result_def)

lemma temporal_usage:
  assumes "fst (temporal_analysis env st q dr mr cs) = Inr d"
  shows "get_int d ''char_used'' 0 =
           (if map_of d ''error'' \<noteq> None then 0
            else int (sum_list (map length (get_list d ''timeline''))))"
  using temporal_shape [OF assms]
  by (auto simp: get_int_def get_list_def error_result_def)

lemma usage_lookup:
  "map_of (usage ''semantic'' ''tokens_used'' sr @ usage ''graph'' ''char_used'' gr
           @ usage ''temporal'' ''char_used'' tr) ''semantic''
     = map_option (\<lambda>d. get_int d ''tokens_used'' 0) sr"
  "map_of (usage ''semantic'' ''tokens_used'' sr @ usage ''graph'' ''char_used'' gr
           @ usage ''temporal'' ''char_used'' tr) ''graph''
     = map_option (\<lambda>d. get_int d ''char_used'' 0) gr"
  "map_of (usage ''semantic'' ''tokens_used'' sr @ usage ''graph'' ''char_used'' gr
           @ usage ''temporal'' ''char_used'' tr) ''temporal''
     = map_option (\<lambda>d. get_int d ''char_used'' 0) tr"
  by (cases sr; cases gr; cases tr; simp add: usage_def)+

lemma chunk_text_short: "int (length text) \<le> budget \<Longrightarrow> chunk_text text budget smart = text"
  by (simp add: chunk_text_def)

lemma graph_ok:
  "\<exists>s'. graph_analysis env_ok s (str ''x'') 10 2000
     = (Inr [(''collaborations'',
                VList [str ''Ann '' @ 8596 # str '' Bob (150+120 menzioni)'']),
             (''total_found'', VInt 1),
             (''query_executed'', VStr (slice_to (cypher_query 10) 100 @ str ''...'')),
             (''char_used'', VInt 28)], s')"
proof -
  have a: "artist_info \<lparr> artist1 = str ''Ann'', artist2 = str ''Bob'',
                         mentions1 = 150, mentions2 = 120 \<rparr>
             = str ''Ann '' @ 8596 # str '' Bob (150+120 menzioni)''"
    by (simp add: artist_info_def str_int_def str_def)
  have l: "length (str ''Ann '' @ 8596 # str '' Bob (150+120 menzioni)'') = 28"
    by (simp add: str_def)
  have c: "chunk_text (str ''Ann '' @ 8596 # str '' Bob (150+120 menzioni)'') 200 True
             = str ''Ann '' @ 8596 # str '' Bob (150+120 menzioni)''"
    by (rule chunk_text_short) (simp add: str_def)
  show ?thesis
    by (simp add: graph_analysis_def setup_connections_def env_ok_def called_def
        a c Let_def) (simp add: str_def)
qed

lemma temporal_ok:
  "\<exists>s'. temporal_analysis env_ok s (str ''x'') (str ''all'') 10 2000
     = (Inr [(''timeline'', VList [str ''2023: 10 articoli, 2 eventi'']),
             (''date_range'', VStr (str ''all'')),
             (''total_years'', VInt 1),
             (''char_used'', VInt 27)], s')"
proof -
  have y: "year_info (2023, 10, 2) = str ''2023: 10 articoli, 2 eventi''"
    by (simp add: year_info_def str_int_def str_def)
  have l: "length (str ''2023: 10 articoli, 2 eventi'') = 27" by (simp add: str_def)
  show ?thesis
    by (simp add: temporal_analysis_def setup_connections_def env_ok_def called_def
        y l Let_def)
qed

lemma semantic_part_props:
  assumes "fst (semantic_analysis env st q cs) = Inr d"
  shows "semantic_part (Some d) \<noteq> []"
    and "map_of d ''error'' \<noteq> None \<Longrightarrow>
           semantic_part (Some d) = [[129504] @ str '' Semantico: N/A'']"
    and "map_of d ''error'' = None \<Longrightarrow>
           semantic_part (Some d)
             = [[129504] @ str '' Semantico: '' @ take 100 (get_str d ''analysis'' [])]"
  using semantic_shape [OF assms]
  by (auto simp: semantic_part_def error_result_def get_str_def slice_to_def str_def)

lemma graph_part_props:
  assumes "fst (graph_analysis env st q mr cs) = Inr d"
  shows "(graph_part (Some d) \<noteq> [])
           = (map_of d ''error'' = None \<and> get_list d ''collaborations'' \<noteq> [])"
  using graph_shape [OF assms]
  by (auto simp: graph_part_def error_result_def get_list_def)

lemma temporal_part_props:
  assumes "fst (temporal_analysis env st q dr mr cs) = Inr d"
  shows "(temporal_part (Some d) \<noteq> [])
           = (map_of d ''error'' = None \<and> get_list d ''timeline'' \<noteq> [])"
  using temporal_shape [OF assms]
  by (auto simp: temporal_part_def error_result_def get_list_def)

text \<open>
  C4, amended: for a request that returns, the semantic entry of
  \<open>context_usage\<close> is the length of the prompt plus the length of the chunked
  analysis text; the graph and temporal entries are the summed lengths of the
  strings of \<open>collaborations\<close> and \<open>timeline\<close>; the entry of a system whose
  result has \<open>error\<close> set is 0; a system has an entry exactly when its flag is
  set, so a system that was not invoked has none.
\<close>

theorem context_usage_values:
  assumes "execute env st p = (Inr r, st')"
  shows "map_of (context_usage r) ''semantic'' =
           (case res_semantic_analysis r of
              None \<Rightarrow> None
            | Some d \<Rightarrow>
                Some (if map_of d ''error'' \<noteq> None then 0
                      else int (length (prompt (query p)))
                           + int (length (get_str d ''analysis'' [])))) \<and>
         map_of (context_usage r) ''graph'' =
           (case graph_data r of
              None \<Rightarrow> None
            | Some d \<Rightarrow>
                Some (if map_of d ''error'' \<noteq> None then 0
                      else int (sum_list (map length (get_list d ''collaborations''))))) \<and>
         map_of (context_usage r) ''temporal'' =
           (case temporal_data r of
              None \<Rightarrow> None
            | Some d \<Rightarrow>
                Some (if map_of d ''error'' \<noteq> None then 0
                      else int (sum_list (map length (get_list d ''timeline''))))) \<and>
         (res_semantic_analysis r = None) = (\<not> use_semantic p) \<and>
         (graph_data r = None) = (\<not> use_graph p) \<and>
         (temporal_data r = None) = (\<not> use_dates p)"
proof -
  from execute_returned [OF assms] obtain sr gr tr st1 st2 where
    s: "step (use_semantic p) (\<lambda>s. semantic_analysis env s (query p) (chunk_size p)) st
          = (Inr sr, st1)"
    and g: "step (use_graph p)
              (\<lambda>s. graph_analysis env s (query p) (max_results p) (chunk_size p)) st1
          = (Inr gr, st2)"
    and t: "step (use_dates p)
              (\<lambda>s. temporal_analysis env s (query p) (date_range p) (max_results p)
                     (chunk_size p)) st2
          = (Inr tr, st')"
    and r: "r = build_response p sr gr tr" by blast
  have cu: "context_usage r =
              usage ''semantic'' ''tokens_used'' sr @ usage ''graph'' ''char_used'' gr
              @ usage ''temporal'' ''char_used'' tr"
    by (simp add: r build_response_def Let_def)
  have 1: "map_of (context_usage r) ''semantic'' =
           (case sr of None \<Rightarrow> None
            | Some d \<Rightarrow>
                Some (if map_of d ''error'' \<noteq> None then 0
                      else int (length (prompt (query p)))
                           + int (length (get_str d ''analysis'' []))))"
  proof (cases sr)
    case None
    then show ?thesis unfolding cu usage_lookup by simp
  next
    case (Some d)
    from step_result(2) [OF s Some] have "fst (semantic_analysis env st (query p) (chunk_size p)) = Inr d" .
    from semantic_usage [OF this] Some show ?thesis
      unfolding cu usage_lookup by simp
  qed
  have 2: "map_of (context_usage r) ''graph'' =
           (case gr of None \<Rightarrow> None
            | Some d \<Rightarrow>
                Some (if map_of d ''error'' \<noteq> None then 0
                      else int (sum_list (map length (get_list d ''collaborations'')))))"
  proof (cases gr)
    case None
    then show ?thesis unfolding cu usage_lookup by simp
  next
    case (Some d)
    from step_result(2) [OF g Some]
    have "fst (graph_analysis env st1 (query p) (max_results p) (chunk_size p)) = Inr d" .
    from graph_usage [OF this] Some show ?thesis
      unfolding cu usage_lookup by simp
  qed
  have 3: "map_of (context_usage r) ''temporal'' =
           (case tr of None \<Rightarrow> None
            | Some d \<Rightarrow>
                Some (if map_of d ''error'' \<noteq> None then 0
                      else int (sum_list (map length (get_list d ''timeline'')))))"
  proof (cases tr)
    case None
    then show ?thesis unfolding cu usage_lookup by simp
  next
    case (Some d)
    from step_result(2) [OF t Some]
    have "fst (temporal_analysis env st2 (query p) (date_range p) (max_results p)
                 (chunk_size p)) = Inr d" .
    from temporal_usage [OF this] Some show ?thesis
      unfolding cu usage_lookup by simp
  qed
  have f: "res_semantic_analysis r = sr" "graph_data r = gr" "temporal_data r = tr"
    by (simp_all add: r build_response_def Let_def)
  from 1 2 3 step_result(1) [OF s] step_result(1) [OF g] step_result(1) [OF t]
  show ?thesis by (simp add: f)
qed

theorem context_usage_values_witness:
  "\<exists>r st'. execute env_ok st0 (request True True True 2000 10) = (Inr r, st')
     \<and> map_of (context_usage r) ''semantic'' = Some 262
     \<and> map_of (context_usage r) ''graph'' = Some 28
     \<and> map_of (context_usage r) ''temporal'' = Some 27"
proof -
  let ?p = "request True True True 2000 10"
  let ?sd = "[(''entities'', VList []),
              (''query_type'', VStr (str ''ricerca'')),
              (''focus'', VStr (str ''x'')),
              (''analysis'', VStr (str ''ok'')),
              (''tokens_used'', VInt 262)]"
  let ?gd = "[(''collaborations'',
                VList [str ''Ann '' @ 8596 # str '' Bob (150+120 menzioni)'']),
              (''total_found'', VInt 1),
              (''query_executed'', VStr (slice_to (cypher_query 10) 100 @ str ''...'')),
              (''char_used'', VInt 28)]"
  let ?td = "[(''timeline'', VList [str ''2023: 10 articoli, 2 eventi'']),
              (''date_range'', VStr (str ''all'')),
              (''total_years'', VInt 1),
              (''char_used'', VInt 27)]"
  let ?r = "build_response ?p (Some ?sd) (Some ?gd) (Some ?td)"
  obtain s2 where g: "graph_analysis env_ok (called (GenerateContent (prompt (str ''x''))) st0)
                        (str ''x'') 10 2000 = (Inr ?gd, s2)"
    using graph_ok by blast
  obtain s3 where t: "temporal_analysis env_ok s2 (str ''x'') (str ''all'') 10 2000
                        = (Inr ?td, s3)"
    using temporal_ok by blast
  have e: "execute env_ok st0 ?p = (Inr ?r, s3)"
    by (simp add: execute_def step_def request_def semantic_ok g t)
  have f: "res_semantic_analysis ?r = Some ?sd" "graph_data ?r = Some ?gd"
    "temporal_data ?r = Some ?td"
    by (simp_all add: build_response_def Let_def)
  have q: "query ?p = str ''x''" by (simp add: request_def)
  have l: "length (str ''ok'') = 2"
    "length (str ''Ann '' @ 8596 # str '' Bob (150+120 menzioni)'') = 28"
    "length (str ''2023: 10 articoli, 2 eventi'') = 27"
    by (simp_all add: str_def)
  from context_usage_values [OF e, unfolded f q option.case]
  have "map_of (context_usage ?r) ''semantic'' = Some 262
      \<and> map_of (context_usage ?r) ''graph'' = Some 28
      \<and> map_of (context_usage ?r) ''temporal'' = Some 27"
    by (simp add: get_str_def get_list_def prompt_length str_def)
  with e show ?thesis by blast
qed

text \<open>
  C6, amended: \<open>combined_summary\<close> joins with \<open>" | "\<close> the fragments of the
  semantic, graph and temporal results, in this order, and is
  \<open>Nessun sistema attivato\<close> when there is none. The semantic fragment is there
  exactly when the semantic adapter was enabled: it shows \<open>N/A\<close> for an error
  result and the first 100 characters of the analysis otherwise. The graph
  (temporal) fragment is there exactly when the graph (temporal) result has no
  error and a non-empty \<open>collaborations\<close> (\<open>timeline\<close>) list.
\<close>

theorem summary_fragments:
  assumes "execute env st p = (Inr r, st')"
  shows "combined_summary r =
           (if semantic_part (res_semantic_analysis r) @ graph_part (graph_data r)
               @ temporal_part (temporal_data r) = []
            then str ''Nessun sistema attivato''
            else join (str '' | '')
                   (semantic_part (res_semantic_analysis r) @ graph_part (graph_data r)
                    @ temporal_part (temporal_data r))) \<and>
         (semantic_part (res_semantic_analysis r) \<noteq> []) = use_semantic p \<and>
         (\<forall>d. res_semantic_analysis r = Some d \<and> map_of d ''error'' \<noteq> None \<longrightarrow>
              semantic_part (res_semantic_analysis r)
                = [[129504] @ str '' Semantico: N/A'']) \<and>
         (\<forall>d. res_semantic_analysis r = Some d \<and> map_of d ''error'' = None \<longrightarrow>
              semantic_part (res_semantic_analysis r)
                = [[129504] @ str '' Semantico: '' @ take 100 (get_str d ''analysis'' [])]) \<and>
         (graph_part (graph_data r) \<noteq> []) =
           (\<exists>d. graph_data r = Some d \<and> map_of d ''error'' = None
                \<and> get_list d ''collaborations'' \<noteq> []) \<and>
         (temporal_part (temporal_data r) \<noteq> []) =
           (\<exists>d. temporal_data r = Some d \<and> map_of d ''error'' = None
                \<and> get_list d ''timeline'' \<noteq> [])"
proof -
  from execute_returned [OF assms] obtain sr gr tr st1 st2 where
    s: "step (use_semantic p) (\<lambda>s. semantic_analysis env s (query p) (chunk_size p)) st
          = (Inr sr, st1)"
    and g: "step (use_graph p)
              (\<lambda>s. graph_analysis env s (query p) (max_results p) (chunk_size p)) st1
          = (Inr gr, st2)"
    and t: "step (use_dates p)
              (\<lambda>s. temporal_analysis env s (query p) (date_range p) (max_results p)
                     (chunk_size p)) st2
          = (Inr tr, st')"
    and r: "r = build_response p sr gr tr" by blast
  have f: "res_semantic_analysis r = sr" "graph_data r = gr" "temporal_data r = tr"
    by (simp_all add: r build_response_def Let_def)
  have 1: "combined_summary r =
           (if semantic_part sr @ graph_part gr @ temporal_part tr = []
            then str ''Nessun sistema attivato''
            else join (str '' | '') (semantic_part sr @ graph_part gr @ temporal_part tr))"
    by (simp add: r build_response_def summary_parts_def Let_def)
  have 2: "(semantic_part sr \<noteq> []) = use_semantic p"
  proof (cases sr)
    case None
    with step_result(1) [OF s] show ?thesis by (simp add: semantic_part_def)
  next
    case (Some d)
    from semantic_part_props(1) [OF step_result(2) [OF s Some]] step_result(1) [OF s] Some
    show ?thesis by simp
  qed
  have 3: "\<forall>d. sr = Some d \<and> map_of d ''error'' \<noteq> None \<longrightarrow>
              semantic_part sr = [[129504] @ str '' Semantico: N/A'']"
    using semantic_part_props(2) [OF step_result(2) [OF s]] by blast
  have 4: "\<forall>d. sr = Some d \<and> map_of d ''error'' = None \<longrightarrow>
              semantic_part sr
                = [[129504] @ str '' Semantico: '' @ take 100 (get_str d ''analysis'' [])]"
    using semantic_part_props(3) [OF step_result(2) [OF s]] by blast
  have 5: "(graph_part gr \<noteq> []) =
           (\<exists>d. gr = Some d \<and> map_of d ''error'' = None
                \<and> get_list d ''collaborations'' \<noteq> [])"
  proof (cases gr)
    case None
    then show ?thesis by (simp add: graph_part_def)
  next
    case (Some d)
    from graph_part_props [OF step_result(2) [OF g Some]] Some show ?thesis by simp
  qed
  have 6: "(temporal_part tr \<noteq> []) =
           (\<exists>d. tr = Some d \<and> map_of d ''error'' = None
                \<and> get_list d ''timeline'' \<noteq> [])"
  proof (cases tr)
    case None
    then show ?thesis by (simp add: temporal_part_def)
  next
    case (Some d)
    from temporal_part_props [OF step_result(2) [OF t Some]] Some show ?thesis by simp
  qed
  from 1 2 3 4 5 6 show ?thesis unfolding f by blast
qed

theorem summary_fragments_witness:
  "\<exists>r st'. execute env_query_errors st0 (request True True True 2000 10) = (Inr r, st')
     \<and> combined_summary r = [129504] @ str '' Semantico: ok''"
proof -
  let ?p = "request True True True 2000 10"
  let ?sd = "[(''entities'', VList []),
              (''query_type'', VStr (str ''ricerca'')),
              (''focus'', VStr (str ''x'')),
              (''analysis'', VStr (str ''ok'')),
              (''tokens_used'', VInt 262)]"
  let ?ed = "error_result (CollaboratorError (str ''bad query'')) ''char_used''"
  let ?r = "build_response ?p (Some ?sd) (Some ?ed) (Some ?ed)"
  have s: "semantic_analysis env_query_errors st0 (str ''x'') 2000
             = semantic_analysis env_ok st0 (str ''x'') 2000"
    by (simp add: semantic_analysis_def env_query_errors_def)
  have g: "\<exists>s'. graph_analysis env_query_errors s1 (str ''x'') 10 2000 = (Inr ?ed, s')" for s1
    by (simp add: graph_analysis_def setup_connections_def env_query_errors_def
        env_ok_def called_def Let_def)
  have t: "\<exists>s'. temporal_analysis env_query_errors s1 (str ''x'') (str ''all'') 10 2000
                 = (Inr ?ed, s')" for s1
    by (simp add: temporal_analysis_def setup_connections_def env_query_errors_def
        env_ok_def called_def Let_def)
  obtain s2 where g2: "graph_analysis env_query_errors
                         (called (GenerateContent (prompt (str ''x''))) st0) (str ''x'') 10 2000
                         = (Inr ?ed, s2)" using g by blast
  obtain s3 where t3: "temporal_analysis env_query_errors s2 (str ''x'') (str ''all'') 10 2000
                         = (Inr ?ed, s3)" using t by blast
  have e: "execute env_query_errors st0 ?p = (Inr ?r, s3)"
    by (simp add: execute_def step_def request_def s semantic_ok g2 t3)
  have f: "res_semantic_analysis ?r = Some ?sd" "graph_data ?r = Some ?ed"
    "temporal_data ?r = Some ?ed"
    by (simp_all add: build_response_def Let_def)
  have parts: "semantic_part (Some ?sd) = [[129504] @ str '' Semantico: ok'']"
    "graph_part (Some ?ed) = []" "temporal_part (Some ?ed) = []"
    by (simp_all add: semantic_part_def graph_part_def temporal_part_def error_result_def
        get_str_def get_list_def slice_to_def str_def)
  from summary_fragments [OF e, unfolded f parts]
  have "combined_summary ?r = [129504] @ str '' Semantico: ok''" by simp
  with e show ?thesis by blast
qed

text \<open>
  C7, amended: \<open>last_year\<close> gives the lower bound of the day 365 days before
  now, now being read from the clock; the value \<open>2020-2024\<close> gives January 1
  of 2020 inclusive to January 1 of 2025 exclusive; \<open>all\<close> gives the
  date-not-null filter, and so does every value that is neither \<open>last_year\<close>
  nor of the form \<open>YYYY-YYYY\<close>. Nothing is said about the other values of the
  form \<open>YYYY-YYYY\<close>. The filter is the \<open>WHERE\<close> clause of the query sent to the
  relational collaborator.
\<close>

theorem date_filter_resolution:
  "(dr = str ''last_year'' \<longrightarrow>
      date_filter env dr
        = str ''published_date >= '' @ [39] @ strftime_ymd env (now_ordinal env - 365) @ [39]) \<and>
   (dr = str ''2020-2024'' \<longrightarrow>
      date_filter env dr
        = str ''published_date >= '' @ [39] @ str ''2020-01-01'' @ [39]
          @ str '' AND published_date < '' @ [39] @ str ''2025-01-01'' @ [39]) \<and>
   (dr = str ''all'' \<longrightarrow> date_filter env dr = str ''published_date IS NOT NULL'') \<and>
   (dr \<noteq> str ''last_year'' \<and> \<not> year_range_form dr \<longrightarrow>
      date_filter env dr = str ''published_date IS NOT NULL'') \<and>
   (graph_driver env = None \<and> pg_connect env = None \<and> pg_cursor env = None \<longrightarrow>
      CurExecute (temporal_query (date_filter env dr) mr)
        \<in> set (calls (snd (temporal_analysis env st q dr mr cs))))"
proof -
  have ne: "str ''2020-2024'' \<noteq> str ''last_year''" "str ''all'' \<noteq> str ''last_year''"
    "str ''all'' \<noteq> str ''2020-2024''"
    by (simp_all add: str_def)
  have yr: "year_range_form (str ''2020-2024'')"
    by (simp add: year_range_form_def is_digit_def str_def)
  have sent: "graph_driver env = None \<and> pg_connect env = None \<and> pg_cursor env = None \<longrightarrow>
      CurExecute (temporal_query (date_filter env dr) mr)
        \<in> set (calls (snd (temporal_analysis env st q dr mr cs)))"
    by (auto simp: temporal_analysis_def setup_connections_def called_def Let_def
        split: sum.splits)
  from ne yr sent show ?thesis by (auto simp: date_filter_def)
qed

theorem date_filter_resolution_witness:
  "date_filter env_ok (str ''last_year'')
     = str ''published_date >= '' @ [39] @ str ''2025-11-04'' @ [39] \<and>
   date_filter env_ok (str ''2020-2024'')
     = str ''published_date >= '' @ [39] @ str ''2020-01-01'' @ [39]
       @ str '' AND published_date < '' @ [39] @ str ''2025-01-01'' @ [39] \<and>
   date_filter env_ok (str ''all'') = str ''published_date IS NOT NULL'' \<and>
   \<not> year_range_form (str ''last_month'') \<and>
   date_filter env_ok (str ''last_month'') = str ''published_date IS NOT NULL'' \<and>
   CurExecute (temporal_query (str ''published_date IS NOT NULL'') 10)
     \<in> set (calls (snd (temporal_analysis env_ok st0 (str ''x'') (str ''all'') 10 2000)))"
proof -
  have c: "graph_driver env_ok = None \<and> pg_connect env_ok = None \<and> pg_cursor env_ok = None"
    by (simp add: env_ok_def)
  have n: "str ''last_month'' \<noteq> str ''last_year''" "\<not> year_range_form (str ''last_month'')"
    by (simp_all add: year_range_form_def str_def)
  have k: "strftime_ymd env_ok (now_ordinal env_ok - 365) = str ''2025-11-04''"
    by (simp add: env_ok_def)
  from date_filter_resolution [of "str ''last_year''" env_ok] k
  have 1: "date_filter env_ok (str ''last_year'')
             = str ''published_date >= '' @ [39] @ str ''2025-11-04'' @ [39]" by simp
  from date_filter_resolution [of "str ''2020-2024''" env_ok]
  have 2: "date_filter env_ok (str ''2020-2024'')
     = str ''published_date >= '' @ [39] @ str ''2020-01-01'' @ [39]
       @ str '' AND published_date < '' @ [39] @ str ''2025-01-01'' @ [39]" by blast
  from date_filter_resolution [of "str ''all''" env_ok 10 st0 "str ''x''" 2000] c
  have 3: "date_filter env_ok (str ''all'') = str ''published_date IS NOT NULL''"
    and 4: "CurExecute (temporal_query (date_filter env_ok (str ''all'')) 10)
     \<in> set (calls (snd (temporal_analysis env_ok st0 (str ''x'') (str ''all'') 10 2000)))"
    by blast+
  from date_filter_resolution [of "str ''last_month''" env_ok] n
  have 5: "date_filter env_ok (str ''last_month'') = str ''published_date IS NOT NULL''"
    by blast
  from 1 2 3 4 5 n show ?thesis by simp
qed

end
